theory Spec2Isabelle
  imports Main "HOL-Library.Word"
begin

section \<open>Values shared by the backend service and the SDK\<close>

text \<open>
  Python \<open>bytes\<close> are lists of 8-bit words. \<open>DatasetFormat\<close> is the enumeration the
  service dispatches on. Its declaration (\<open>schemas.datasets\<close>) is not among the sources;
  the code names one member, \<open>DatasetFormat.EXPERIMENT\<close>, and has a \<open>case _\<close> branch for
  every other value a caller may pass. \<open>OTHER_FORMAT t\<close> stands for such a value, \<open>t\<close>
  being what \<open>str\<close> prints for it.
\<close>

type_synonym bytes = "8 word list"

datatype DatasetFormat = EXPERIMENT | OTHER_FORMAT string

text \<open>
  The messages of the exceptions are f-strings. A message is kept as the sequence of its
  pieces: the literal text, and one piece for each interpolated value. The text that
  Python prints for a \<open>set\<close> depends on the hash order of its elements, and
  \<open>ByteSize.human_readable\<close> is pydantic's; keeping the value itself in the message
  avoids fixing either. \<open>StrOf e\<close> is \<open>str(e)\<close> for an exception \<open>e\<close>.

  The exception classes are those the two files raise or let through. \<open>UnicodeError\<close>
  covers its subclasses (\<open>UnicodeDecodeError\<close>), which is what \<open>except UnicodeError\<close>
  catches. \<open>LibraryError\<close> is any other exception of a collaborator.
\<close>

datatype frag =
    Lit string
  | HumanReadable int
  | FieldSet "string set"
  | FormatTag DatasetFormat
  | JobId string
  | StrOf py_exception
and py_exception =
    HTTPException nat "frag list"
  | ValueError "frag list"
  | UnicodeError string
  | FileNotFoundError string
  | KeyError string
  | AttributeError string
  | LibraryError string
  | Exception "frag list"

type_synonym message = "frag list"

definition HTTP_403_FORBIDDEN :: nat where
  "HTTP_403_FORBIDDEN = 403"

definition HTTP_413_REQUEST_ENTITY_TOO_LARGE :: nat where
  "HTTP_413_REQUEST_ENTITY_TOO_LARGE = 413"

definition HTTP_422_UNPROCESSABLE_ENTITY :: nat where
  "HTTP_422_UNPROCESSABLE_ENTITY = 422"

definition HTTP_500_INTERNAL_SERVER_ERROR :: nat where
  "HTTP_500_INTERNAL_SERVER_ERROR = 500"

section \<open>Size-limited copy: \<open>validate_file_size\<close>\<close>

text \<open>
  \<^verbatim>\<open>
  actual_size = 0
  for chunk in input:
      actual_size += output.write(chunk)
      if actual_size > max_size:
          raise HTTPException(status_code=413, detail=f"File upload exceeds the ... limit.")
  return actual_size
  \<close>
  The input is the sequence of chunks its iterator yields; the output is the sequence of
  chunks written to it so far, and \<open>write\<close> returns the length of the chunk (a buffered
  binary file writes all of it). The loop returns its result together with the chunks
  the iterator has not yielded and the output. \<open>max_size\<close> is a \<open>ByteSize\<close>, a subclass
  of \<open>int\<close>.
\<close>

definition too_large :: "int \<Rightarrow> py_exception" where
  "too_large max_size =
     HTTPException HTTP_413_REQUEST_ENTITY_TOO_LARGE
       [Lit ''File upload exceeds the '', HumanReadable max_size, Lit '' limit.'']"

fun validate_file_size_loop ::
  "bytes list \<Rightarrow> bytes list \<Rightarrow> int \<Rightarrow> int \<Rightarrow> (py_exception + int) \<times> bytes list \<times> bytes list"
where
  "validate_file_size_loop [] outp max_size actual_size = (Inr actual_size, [], outp)"
| "validate_file_size_loop (chunk # rest) outp max_size actual_size =
     (let outp' = outp @ [chunk];
          actual_size' = actual_size + int (length chunk)
      in if actual_size' > max_size then (Inl (too_large max_size), rest, outp')
         else validate_file_size_loop rest outp' max_size actual_size')"

definition validate_file_size ::
  "bytes list \<Rightarrow> bytes list \<Rightarrow> int \<Rightarrow> (py_exception + int) \<times> bytes list \<times> bytes list"
where
  "validate_file_size inp outp max_size = validate_file_size_loop inp outp max_size 0"

text \<open>The number of bytes in a sequence of chunks.\<close>

definition total_length :: "bytes list \<Rightarrow> int" where
  "total_length chunks = (\<Sum>chunk\<leftarrow>chunks. int (length chunk))"

section \<open>Format validation: \<open>validate_dataset_format\<close>\<close>

definition ALLOWED_EXPERIMENT_FIELDS :: "string set" where
  "ALLOWED_EXPERIMENT_FIELDS = {''examples'', ''ground_truth''}"

definition REQUIRED_EXPERIMENT_FIELDS :: "string set" where
  "REQUIRED_EXPERIMENT_FIELDS = {''examples''}"

text \<open>
  The file system maps a file name to the bytes of the file. Opening a file in text mode
  and reading the header row are Python's (\<open>Path.open\<close>, \<open>csv.DictReader.fieldnames\<close>),
  not this repository's: \<open>fieldnames_of\<close> is a parameter that gives, for the bytes of a
  file, what \<open>reader.fieldnames\<close> evaluates to: an exception raised while the text is
  decoded or parsed, \<open>None\<close> when there is no header row, or the list of column names.
\<close>

type_synonym filesystem = "string \<rightharpoonup> bytes"

type_synonym header_reader = "bytes \<Rightarrow> py_exception + string list option"

definition missing_fields_error :: "string set \<Rightarrow> py_exception" where
  "missing_fields_error missing_fields =
     HTTPException HTTP_403_FORBIDDEN
       [Lit ''Experiment dataset is missing the required fields: '',
        FieldSet missing_fields, Lit ''.'']"

definition invalid_fields_error :: "string set \<Rightarrow> py_exception" where
  "invalid_fields_error extra_fields =
     HTTPException HTTP_403_FORBIDDEN
       [Lit ''Experiment dataset contains the invalid fields: '', FieldSet extra_fields,
        Lit ''. '', Lit ''Only '', FieldSet ALLOWED_EXPERIMENT_FIELDS,
        Lit '' are allowed.'']"

text \<open>
  \<^verbatim>\<open>
  with Path(filename).open() as f:
      reader = csv.DictReader(f)
      fields = set(reader.fieldnames or [])
      missing_fields = REQUIRED_EXPERIMENT_FIELDS.difference(fields)
      if missing_fields: raise HTTPException(403, ...)
      extra_fields = fields.difference(ALLOWED_EXPERIMENT_FIELDS)
      if extra_fields: raise HTTPException(403, ...)
  \<close>
\<close>

definition validate_experiment_dataset ::
  "header_reader \<Rightarrow> filesystem \<Rightarrow> string \<Rightarrow> py_exception + unit"
where
  "validate_experiment_dataset fieldnames_of fs filename =
     (case fs filename of
        None \<Rightarrow> Inl (FileNotFoundError filename)
      | Some content \<Rightarrow>
          (case fieldnames_of content of
             Inl e \<Rightarrow> Inl e
           | Inr fieldnames \<Rightarrow>
               (let fields = set (case fieldnames of None \<Rightarrow> [] | Some names \<Rightarrow> names);
                    missing_fields = REQUIRED_EXPERIMENT_FIELDS - fields
                in if missing_fields \<noteq> {} then Inl (missing_fields_error missing_fields)
                   else (let extra_fields = fields - ALLOWED_EXPERIMENT_FIELDS
                         in if extra_fields \<noteq> {}
                            then Inl (invalid_fields_error extra_fields)
                            else Inr ()))))"

definition not_a_csv_error :: py_exception where
  "not_a_csv_error =
     HTTPException HTTP_422_UNPROCESSABLE_ENTITY [Lit ''Dataset is not a valid CSV file.'']"

text \<open>
  \<^verbatim>\<open>
  try:
      match format:
          case DatasetFormat.EXPERIMENT: validate_experiment_dataset(filename)
          case _: raise ValueError(f"Unknown dataset format: {format}")
  except UnicodeError as e:
      raise HTTPException(status_code=422, detail="Dataset is not a valid CSV file.") from e
  \<close>
\<close>

definition validate_dataset_format ::
  "header_reader \<Rightarrow> filesystem \<Rightarrow> string \<Rightarrow> DatasetFormat \<Rightarrow> py_exception + unit"
where
  "validate_dataset_format fieldnames_of fs filename format =
     (case (case format of
              EXPERIMENT \<Rightarrow> validate_experiment_dataset fieldnames_of fs filename
            | OTHER_FORMAT t \<Rightarrow>
                Inl (ValueError [Lit ''Unknown dataset format: '', FormatTag format])) of
        Inl (UnicodeError e) \<Rightarrow> Inl not_a_csv_error
      | r \<Rightarrow> r)"

section \<open>Python's text reader, as far as the header row goes\<close>
















section \<open>The upload flow: \<open>DatasetService.upload_dataset\<close>\<close>

text \<open>
  Modelled from the spec: the metadata record \<open>DatasetRecord\<close> (\<open>backend.records.datasets\<close>)
  is not among the sources. The code passes \<open>filename\<close>, \<open>format\<close> and \<open>size\<close> to
  \<open>create\<close> and reads \<open>record.id\<close> and \<open>record.filename\<close>; an identifier is the text
  of its UUID.
\<close>

record DatasetRecord =
  rec_id :: string
  rec_filename :: string
  rec_format :: DatasetFormat
  rec_size :: int

text \<open>
  The state the flow acts on: the files of the local file system, the records of the
  repository by identifier, and the keys of the objects stored in the bucket.
\<close>

record world =
  files :: filesystem
  db :: "string \<rightharpoonup> DatasetRecord"
  s3 :: "string set"

text \<open>The two settings the flow reads.\<close>

record settings =
  MAX_DATASET_SIZE :: int
  S3_DATASETS_PREFIX :: string

text \<open>
  What the collaborators do during one call: the name \<open>NamedTemporaryFile\<close> picks, whether
  \<open>dataset_repo.create\<close> raises or which identifier it assigns, and whether
  \<open>load_dataset\<close> and \<open>save_to_disk\<close> raise.
\<close>

record collaborators =
  temp_name :: string
  create_outcome :: "py_exception + string"
  load_outcome :: "py_exception option"
  save_outcome :: "py_exception option"

text \<open>
  Modelled from the spec: the repository (\<open>backend.repositories.datasets\<close>) is not among
  the sources. The spec gives its interface as \<open>Repository.create(metadata) -> record\<close>
  and \<open>Repository.delete(id)\<close>: \<open>create\<close> stores a record under a new identifier and
  returns it, unless it raises; \<open>delete\<close> removes the record with the given identifier.
\<close>

definition repo_create ::
  "collaborators \<Rightarrow> string \<Rightarrow> DatasetFormat \<Rightarrow> int \<Rightarrow> world \<Rightarrow>
   (py_exception + DatasetRecord) \<times> world"
where
  "repo_create co filename format sz w =
     (case create_outcome co of
        Inl e \<Rightarrow> (Inl e, w)
      | Inr new_id \<Rightarrow>
          (let r = \<lparr>rec_id = new_id, rec_filename = filename, rec_format = format,
                    rec_size = sz\<rparr>
           in (Inr r, w\<lparr>db := (db w)(new_id \<mapsto> r)\<rparr>)))"

definition repo_delete :: "string \<Rightarrow> world \<Rightarrow> world" where
  "repo_delete dataset_id w = w\<lparr>db := (db w)(dataset_id := None)\<rparr>"

definition raise_unhandled_exception :: "py_exception \<Rightarrow> py_exception" where
  "raise_unhandled_exception e = HTTPException HTTP_500_INTERNAL_SERVER_ERROR [StrOf e]"

definition get_s3_key :: "settings \<Rightarrow> string \<Rightarrow> string \<Rightarrow> string" where
  "get_s3_key st dataset_id filename =
     S3_DATASETS_PREFIX st @ ''/'' @ dataset_id @ ''/'' @ filename"

text \<open>
  \<^verbatim>\<open>
  try:
      dataset_hf = load_dataset("csv", data_files=temp_fname, split="train")
      dataset_key = self._get_s3_key(record.id, record.filename)
      dataset_path = f"s3://{ Path(settings.S3_BUCKET) / dataset_key }"
      dataset_hf.save_to_disk(dataset_path, fs=self.s3_filesystem)
  except Exception as e:
      if record:
          self.dataset_repo.delete(record.id)
      self._raise_unhandled_exception(e)
  \<close>
  The record argument is optional, as the test \<open>if record\<close> has it; with \<open>None\<close> the
  attribute access \<open>record.id\<close> raises inside the \<open>try\<close>. A write that raises leaves the
  bucket as it was.
\<close>

definition save_dataset_to_s3 ::
  "settings \<Rightarrow> collaborators \<Rightarrow> string \<Rightarrow> DatasetRecord option \<Rightarrow> world \<Rightarrow>
   (py_exception + unit) \<times> world"
where
  "save_dataset_to_s3 st co temp_fname rcd w =
     (let handler = (\<lambda>e. (Inl (raise_unhandled_exception e),
                           (case rcd of None \<Rightarrow> w | Some r \<Rightarrow> repo_delete (rec_id r) w)))
      in case load_outcome co of
           Some e \<Rightarrow> handler e
         | None \<Rightarrow>
             (case rcd of
                None \<Rightarrow> handler (AttributeError ''id'')
              | Some r \<Rightarrow>
                  (case save_outcome co of
                     Some e \<Rightarrow> handler e
                   | None \<Rightarrow>
                       (Inr (),
                        w\<lparr>s3 := insert (get_s3_key st (rec_id r) (rec_filename r)) (s3 w)\<rparr>))))"

definition NamedTemporaryFile :: "string \<Rightarrow> world \<Rightarrow> world" where
  "NamedTemporaryFile name w = w\<lparr>files := (files w)(name \<mapsto> [])\<rparr>"

definition unlink :: "string \<Rightarrow> world \<Rightarrow> (py_exception + unit) \<times> world" where
  "unlink name w =
     (if name \<in> dom (files w) then (Inr (), w\<lparr>files := (files w)(name := None)\<rparr>)
      else (Inl (FileNotFoundError name), w))"

text \<open>
  The body of the \<open>try\<close> of \<open>upload_dataset\<close>:
  \<^verbatim>\<open>
  with temp as buffer:
      actual_size = validate_file_size(dataset.file, buffer, settings.MAX_DATASET_SIZE)
  validate_dataset_format(temp.name, format)
  record = self.dataset_repo.create(filename=dataset.filename, format=format, size=actual_size)
  self._save_dataset_to_s3(temp.name, record)
  \<close>
  Leaving the \<open>with\<close> block closes the buffer: the temporary file then holds what was
  written, also when \<open>validate_file_size\<close> raised.
\<close>

definition upload_dataset_try ::
  "header_reader \<Rightarrow> settings \<Rightarrow> collaborators \<Rightarrow> bytes list \<Rightarrow> string \<Rightarrow>
   DatasetFormat \<Rightarrow> string \<Rightarrow> world \<Rightarrow> (py_exception + DatasetRecord) \<times> world"
where
  "upload_dataset_try fieldnames_of st co dataset_file filename format temp w =
     (case validate_file_size dataset_file [] (MAX_DATASET_SIZE st) of
        (r, unread, written) \<Rightarrow>
          (let w1 = w\<lparr>files := (files w)(temp \<mapsto> concat written)\<rparr>
           in case r of
                Inl e \<Rightarrow> (Inl e, w1)
              | Inr actual_size \<Rightarrow>
                  (case validate_dataset_format fieldnames_of (files w1) temp format of
                     Inl e \<Rightarrow> (Inl e, w1)
                   | Inr u \<Rightarrow>
                       (case repo_create co filename format actual_size w1 of
                          (Inl e, w2) \<Rightarrow> (Inl e, w2)
                        | (Inr rcd, w2) \<Rightarrow>
                            (case save_dataset_to_s3 st co temp (Some rcd) w2 of
                               (Inl e, w3) \<Rightarrow> (Inl e, w3)
                             | (Inr u', w3) \<Rightarrow> (Inr rcd, w3))))))"

text \<open>
  \<^verbatim>\<open>
  temp = NamedTemporaryFile(delete=False)
  try:
      ...
  finally:
      Path(temp.name).unlink()
  return DatasetResponse.model_validate(record)
  \<close>
  The \<open>finally\<close> clause runs after the body whatever its result; an exception of
  \<open>unlink\<close> itself would replace the body's. The response is the record, field by field.
\<close>

definition upload_dataset ::
  "header_reader \<Rightarrow> settings \<Rightarrow> collaborators \<Rightarrow> bytes list \<Rightarrow> string \<Rightarrow>
   DatasetFormat \<Rightarrow> world \<Rightarrow> (py_exception + DatasetRecord) \<times> world"
where
  "upload_dataset fieldnames_of st co dataset_file filename format w =
     (let temp = temp_name co;
          w0 = NamedTemporaryFile temp w
      in case upload_dataset_try fieldnames_of st co dataset_file filename format temp w0 of
           (r, w1) \<Rightarrow>
             (case unlink temp w1 of
                (Inl e, w2) \<Rightarrow> (Inl e, w2)
              | (Inr u, w2) \<Rightarrow> (r, w2)))"

section \<open>The SDK's polling loop: \<open>Jobs.wait_for_job\<close>\<close>

text \<open>
  The job information is the dictionary \<open>response.json()\<close> returns. The client is the
  job-execution service as the poller sees it: \<open>client job_id n\<close> is the answer to query
  number \<open>n\<close>, counted from 0, for that job. The state of a call counts the queries made
  and lists the waits (\<open>asyncio.sleep\<close>) in order.
\<close>

type_synonym jobinfo = "string \<rightharpoonup> string"

record poll_state =
  observations :: nat
  sleeps :: "int list"

definition job_failed :: "string \<Rightarrow> py_exception" where
  "job_failed job_id = Exception [Lit ''Job '', JobId job_id, Lit '' failed'']"

definition job_stopped :: "string \<Rightarrow> py_exception" where
  "job_stopped job_id = Exception [Lit ''Job '', JobId job_id, Lit '' stopped'']"

text \<open>
  The second literal of the last message has no \<open>f\<close> prefix in the source, so its braces
  are printed as they stand.
\<close>

definition job_did_not_complete :: "string \<Rightarrow> py_exception" where
  "job_did_not_complete job_id =
     Exception [Lit ''Job '', JobId job_id, Lit '' did not complete in the polling '',
                Lit ''time (retries: {retries}, poll_wait: {poll_wait})'']"

text \<open>
  \<^verbatim>\<open>
  for _ in range(1, retries):
      response = self.client.get_ray_job_response(f'{id}')
      jobinfo = response.json()
      if jobinfo["status"] == "PENDING" or jobinfo["status"] == "RUNNING":
          await asyncio.sleep(poll_wait)
          continue
      elif jobinfo["status"] == "FAILED":
          raise Exception(f"Job {id} failed")
      elif jobinfo["status"] == "STOPPED":
          raise Exception(f"Job {id} stopped")
      elif jobinfo["status"] == "SUCCEEDED":
          return jobinfo
  raise Exception(f"Job {id} did not complete in the polling " ...)
  \<close>
  The loop function takes the number of iterations that remain. It gives \<open>None\<close> when the
  iterations are used up, and otherwise what the body raised or returned. A status that
  is none of the five falls through the chain and starts the next iteration at once.
\<close>

fun wait_for_job_loop ::
  "(string \<Rightarrow> nat \<Rightarrow> jobinfo) \<Rightarrow> string \<Rightarrow> int \<Rightarrow> nat \<Rightarrow> poll_state \<Rightarrow>
   (py_exception + jobinfo) option \<times> poll_state"
where
  "wait_for_job_loop client job_id poll_wait 0 s = (None, s)"
| "wait_for_job_loop client job_id poll_wait (Suc n) s =
     (let jobinfo = client job_id (observations s);
          s1 = s\<lparr>observations := Suc (observations s)\<rparr>
      in case jobinfo ''status'' of
           None \<Rightarrow> (Some (Inl (KeyError ''status'')), s1)
         | Some status \<Rightarrow>
             if status = ''PENDING'' \<or> status = ''RUNNING''
             then wait_for_job_loop client job_id poll_wait n
                    (s1\<lparr>sleeps := sleeps s1 @ [poll_wait]\<rparr>)
             else if status = ''FAILED'' then (Some (Inl (job_failed job_id)), s1)
             else if status = ''STOPPED'' then (Some (Inl (job_stopped job_id)), s1)
             else if status = ''SUCCEEDED'' then (Some (Inr jobinfo), s1)
             else wait_for_job_loop client job_id poll_wait n s1)"

text \<open>\<open>range(1, retries)\<close> has \<open>retries - 1\<close> elements, and none when \<open>retries\<close> is below 2.\<close>

definition wait_for_job ::
  "(string \<Rightarrow> nat \<Rightarrow> jobinfo) \<Rightarrow> string \<Rightarrow> int \<Rightarrow> int \<Rightarrow>
   (py_exception + jobinfo) \<times> poll_state"
where
  "wait_for_job client job_id retries poll_wait =
     (case wait_for_job_loop client job_id poll_wait (nat (retries - 1))
             \<lparr>observations = 0, sleeps = []\<rparr> of
        (Some r, s) \<Rightarrow> (r, s)
      | (None, s) \<Rightarrow> (Inl (job_did_not_complete job_id), s))"

text \<open>
  The first test of the loop body: the status is \<open>PENDING\<close> or \<open>RUNNING\<close>, and the loop
  waits and polls again.
\<close>

definition is_waiting :: "jobinfo \<Rightarrow> bool" where
  "is_waiting jobinfo =
     (jobinfo ''status'' = Some ''PENDING'' \<or> jobinfo ''status'' = Some ''RUNNING'')"

section \<open>Properties of \<open>validate_file_size\<close>\<close>

lemma total_length_Nil: "total_length [] = 0"
  by (simp add: total_length_def)

lemma total_length_Cons:
  "total_length (chunk # rest) = int (length chunk) + total_length rest"
  by (simp add: total_length_def)

lemma total_length_nonneg: "0 \<le> total_length chunks"
  by (induction chunks) (simp_all add: total_length_Nil total_length_Cons)

lemma validate_file_size_loop_fits:
  "actual_size + total_length chunks \<le> max_size \<Longrightarrow>
   validate_file_size_loop chunks outp max_size actual_size =
     (Inr (actual_size + total_length chunks), [], outp @ chunks)"
proof (induction chunks arbitrary: outp actual_size)
  case Nil
  then show ?case by (simp add: total_length_Nil)
next
  case (Cons chunk rest)
  have rest_nonneg: "0 \<le> total_length rest"
    by (rule total_length_nonneg)
  from Cons.prems have step: "\<not> actual_size + int (length chunk) > max_size"
    using rest_nonneg by (simp add: total_length_Cons)
  from Cons.prems
  have "actual_size + int (length chunk) + total_length rest \<le> max_size"
    by (simp add: total_length_Cons)
  from Cons.IH [OF this] step show ?case
    by (simp add: total_length_Cons Let_def)
qed

lemma validate_file_size_loop_overflow:
  "actual_size \<le> max_size \<Longrightarrow> max_size < actual_size + total_length chunks \<Longrightarrow>
   \<exists>k<length chunks.
      actual_size + total_length (take k chunks) \<le> max_size \<and>
      max_size < actual_size + total_length (take (Suc k) chunks) \<and>
      validate_file_size_loop chunks outp max_size actual_size =
        (Inl (too_large max_size), drop (Suc k) chunks, outp @ take (Suc k) chunks)"
proof (induction chunks arbitrary: outp actual_size)
  case Nil
  then show ?case by (simp add: total_length_Nil)
next
  case (Cons chunk rest)
  show ?case
  proof (cases "actual_size + int (length chunk) > max_size")
    case True
    with Cons.prems have
      "actual_size + total_length (take 0 (chunk # rest)) \<le> max_size \<and>
       max_size < actual_size + total_length (take (Suc 0) (chunk # rest)) \<and>
       validate_file_size_loop (chunk # rest) outp max_size actual_size =
         (Inl (too_large max_size), drop (Suc 0) (chunk # rest),
          outp @ take (Suc 0) (chunk # rest))"
      by (simp add: total_length_Nil total_length_Cons Let_def)
    then show ?thesis by blast
  next
    case False
    then have le: "actual_size + int (length chunk) \<le> max_size" by simp
    from Cons.prems
    have gt: "max_size < actual_size + int (length chunk) + total_length rest"
      by (simp add: total_length_Cons)
    from Cons.IH [OF le gt, of "outp @ [chunk]"]
    obtain k where k: "k < length rest"
      and below: "actual_size + int (length chunk) + total_length (take k rest) \<le> max_size"
      and above: "max_size < actual_size + int (length chunk) + total_length (take (Suc k) rest)"
      and run: "validate_file_size_loop rest (outp @ [chunk]) max_size
                  (actual_size + int (length chunk)) =
                (Inl (too_large max_size), drop (Suc k) rest,
                 (outp @ [chunk]) @ take (Suc k) rest)"
      by blast
    from k below above run False have
      "Suc k < length (chunk # rest) \<and>
       actual_size + total_length (take (Suc k) (chunk # rest)) \<le> max_size \<and>
       max_size < actual_size + total_length (take (Suc (Suc k)) (chunk # rest)) \<and>
       validate_file_size_loop (chunk # rest) outp max_size actual_size =
         (Inl (too_large max_size), drop (Suc (Suc k)) (chunk # rest),
          outp @ take (Suc (Suc k)) (chunk # rest))"
      by (simp add: total_length_Cons Let_def)
    then show ?thesis by blast
  qed
qed

text \<open>
  C3. When the chunks of the source add up to at most the limit, \<open>validate_file_size\<close>
  raises nothing and returns the total number of bytes of the source, having read every
  chunk and written all of them, in order, to the output. An empty source returns 0
  whatever the limit is.
\<close>

theorem validate_file_size_within_limit:
  "(total_length chunks \<le> max_size \<longrightarrow>
      validate_file_size chunks outp max_size =
        (Inr (total_length chunks), [], outp @ chunks)) \<and>
   validate_file_size [] outp max_size = (Inr 0, [], outp)"
  using validate_file_size_loop_fits [of 0 chunks max_size outp]
  by (simp add: validate_file_size_def)

theorem validate_file_size_within_limit_witness:
  "total_length [[1, 2], [], [3, 4, 5]] \<le> 5 \<and>
   validate_file_size [[1, 2], [], [3, 4, 5]] [[9]] 5 =
     (Inr 5, [], [[9], [1, 2], [], [3, 4, 5]]) \<and>
   validate_file_size [] [[9]] 5 = (Inr 0, [], [[9]])"
  using validate_file_size_within_limit [of "[[1, 2], [], [3, 4, 5]]" 5 "[[9]]"]
  by (simp add: total_length_def)

text \<open>
  C1. When the chunks of the source add up to more than the limit (a \<open>ByteSize\<close>, which
  pydantic validates to be at least 0), \<open>validate_file_size\<close> raises the 413 exception
  whose detail carries the limit. There is a chunk, number \<open>k\<close> counted from 0, at which
  the running total first exceeds the limit: the output has received exactly the chunks
  up to and including that one, and the chunks after it are still unread.
\<close>

theorem validate_file_size_over_limit:
  assumes "0 \<le> max_size" and "max_size < total_length chunks"
  shows "\<exists>k<length chunks.
           total_length (take k chunks) \<le> max_size \<and>
           max_size < total_length (take (Suc k) chunks) \<and>
           validate_file_size chunks outp max_size =
             (Inl (HTTPException 413
                     [Lit ''File upload exceeds the '', HumanReadable max_size,
                      Lit '' limit.'']),
              drop (Suc k) chunks, outp @ take (Suc k) chunks)"
  using validate_file_size_loop_overflow [of 0 max_size chunks outp] assms
  by (simp add: validate_file_size_def too_large_def
      HTTP_413_REQUEST_ENTITY_TOO_LARGE_def)

theorem validate_file_size_over_limit_witness:
  "(0::int) \<le> 3 \<and> 3 < total_length [[1, 2], [3, 4], [5], [6, 7]] \<and>
   (\<exists>k<length [[1, 2], [3, 4], [5], [6, 7 :: 8 word]].
      total_length (take k [[1, 2], [3, 4], [5], [6, 7]]) \<le> 3 \<and>
      3 < total_length (take (Suc k) [[1, 2], [3, 4], [5], [6, 7]]) \<and>
      validate_file_size [[1, 2], [3, 4], [5], [6, 7]] [] 3 =
        (Inl (HTTPException 413
                [Lit ''File upload exceeds the '', HumanReadable 3, Lit '' limit.'']),
         drop (Suc k) [[1, 2], [3, 4], [5], [6, 7]],
         [] @ take (Suc k) [[1, 2], [3, 4], [5], [6, 7]])) \<and>
   validate_file_size [[1, 2], [3, 4], [5], [6, 7]] [] 3 =
     (Inl (HTTPException 413
             [Lit ''File upload exceeds the '', HumanReadable 3, Lit '' limit.'']),
      [[5], [6, 7]], [[1, 2], [3, 4]])"
proof -
  have pos: "(0::int) \<le> 3" by simp
  have over: "3 < total_length [[1, 2], [3, 4], [5], [6, 7]]"
    by (simp add: total_length_def)
  note inst = validate_file_size_over_limit [OF pos over, of "[]"]
  have run: "validate_file_size [[1, 2], [3, 4], [5], [6, 7]] [] 3 =
     (Inl (HTTPException 413
             [Lit ''File upload exceeds the '', HumanReadable 3, Lit '' limit.'']),
      [[5], [6, 7 :: 8 word]], [[1, 2], [3, 4]])"
    by (simp add: validate_file_size_def too_large_def
        HTTP_413_REQUEST_ENTITY_TOO_LARGE_def)
  from pos over inst run show ?thesis by blast
qed

section \<open>Properties of the format validation\<close>

text \<open>
  C9. The required fields of the experiment format, the only registered format, are
  among its allowed fields. Both sets are constants of the module: no operation takes
  part in the statement, and none of the functions above assigns to them.
\<close>

theorem required_fields_are_allowed:
  "REQUIRED_EXPERIMENT_FIELDS \<subseteq> ALLOWED_EXPERIMENT_FIELDS"
  by (simp add: REQUIRED_EXPERIMENT_FIELDS_def ALLOWED_EXPERIMENT_FIELDS_def)

text \<open>
  C4. For the format \<open>EXPERIMENT\<close> and a file whose header row has the columns \<open>names\<close>:
  when the set of columns is \<open>{examples, ground_truth}\<close> the validation succeeds; when
  it is \<open>{ground_truth}\<close> it raises the 403 exception for missing fields, whose detail
  carries the set \<open>{examples}\<close>; when it is \<open>{examples, extra}\<close> it raises the 403 exception
  for invalid fields, whose detail carries \<open>{extra}\<close> and the allowed set
  \<open>{examples, ground_truth}\<close>.
\<close>

theorem validate_dataset_format_experiment_headers:
  assumes "fs filename = Some content" and "fieldnames_of content = Inr (Some names)"
  shows "(set names = {''examples'', ''ground_truth''} \<longrightarrow>
            validate_dataset_format fieldnames_of fs filename EXPERIMENT = Inr ()) \<and>
         (set names = {''ground_truth''} \<longrightarrow>
            validate_dataset_format fieldnames_of fs filename EXPERIMENT =
              Inl (HTTPException 403
                     [Lit ''Experiment dataset is missing the required fields: '',
                      FieldSet {''examples''}, Lit ''.''])) \<and>
         (set names = {''examples'', ''extra''} \<longrightarrow>
            validate_dataset_format fieldnames_of fs filename EXPERIMENT =
              Inl (HTTPException 403
                     [Lit ''Experiment dataset contains the invalid fields: '',
                      FieldSet {''extra''}, Lit ''. '', Lit ''Only '',
                      FieldSet {''examples'', ''ground_truth''}, Lit '' are allowed.'']))"
  using assms
  by (simp add: validate_dataset_format_def validate_experiment_dataset_def
      missing_fields_error_def invalid_fields_error_def HTTP_403_FORBIDDEN_def
      REQUIRED_EXPERIMENT_FIELDS_def ALLOWED_EXPERIMENT_FIELDS_def insert_Diff_if)

theorem validate_dataset_format_experiment_headers_witness:
  "validate_dataset_format (\<lambda>c. Inr (Some [''examples'', ''ground_truth'']))
     [''upload.csv'' \<mapsto> [1, 2, 3]] ''upload.csv'' EXPERIMENT = Inr () \<and>
   validate_dataset_format (\<lambda>c. Inr (Some [''ground_truth'']))
     [''upload.csv'' \<mapsto> [1, 2, 3]] ''upload.csv'' EXPERIMENT =
     Inl (HTTPException 403
            [Lit ''Experiment dataset is missing the required fields: '',
             FieldSet {''examples''}, Lit ''.'']) \<and>
   validate_dataset_format (\<lambda>c. Inr (Some [''examples'', ''extra'']))
     [''upload.csv'' \<mapsto> [1, 2, 3]] ''upload.csv'' EXPERIMENT =
     Inl (HTTPException 403
            [Lit ''Experiment dataset contains the invalid fields: '',
             FieldSet {''extra''}, Lit ''. '', Lit ''Only '',
             FieldSet {''examples'', ''ground_truth''}, Lit '' are allowed.''])"
  using validate_dataset_format_experiment_headers
          [of "[''upload.csv'' \<mapsto> [1, 2, 3]]" "''upload.csv''" "[1, 2, 3]"
              "\<lambda>c. Inr (Some [''examples'', ''ground_truth''])"
              "[''examples'', ''ground_truth'']"]
        validate_dataset_format_experiment_headers
          [of "[''upload.csv'' \<mapsto> [1, 2, 3]]" "''upload.csv''" "[1, 2, 3]"
              "\<lambda>c. Inr (Some [''ground_truth''])" "[''ground_truth'']"]
        validate_dataset_format_experiment_headers
          [of "[''upload.csv'' \<mapsto> [1, 2, 3]]" "''upload.csv''" "[1, 2, 3]"
              "\<lambda>c. Inr (Some [''examples'', ''extra''])" "[''examples'', ''extra'']"]
  by simp

text \<open>
  C10. When the file has no header row, so that \<open>reader.fieldnames\<close> is \<open>None\<close>, the set
  of fields is empty and \<open>validate_experiment_dataset\<close> raises the 403 exception for
  missing fields with \<open>{examples}\<close>. The missing-fields test comes first: a header
  without \<open>examples\<close> raises that same exception whatever other columns it has, also
  columns that are not allowed.
\<close>

theorem validate_experiment_dataset_missing_first:
  assumes "fs filename = Some content"
  shows "(fieldnames_of content = Inr None \<longrightarrow>
            validate_experiment_dataset fieldnames_of fs filename =
              Inl (HTTPException 403
                     [Lit ''Experiment dataset is missing the required fields: '',
                      FieldSet {''examples''}, Lit ''.''])) \<and>
         (fieldnames_of content = Inr (Some names) \<and> ''examples'' \<notin> set names \<longrightarrow>
            validate_experiment_dataset fieldnames_of fs filename =
              Inl (HTTPException 403
                     [Lit ''Experiment dataset is missing the required fields: '',
                      FieldSet {''examples''}, Lit ''.'']))"
  using assms
  by (auto simp add: validate_experiment_dataset_def missing_fields_error_def
      HTTP_403_FORBIDDEN_def REQUIRED_EXPERIMENT_FIELDS_def)

theorem validate_experiment_dataset_missing_first_witness:
  "validate_experiment_dataset (\<lambda>c. Inr None) [''empty.csv'' \<mapsto> []] ''empty.csv'' =
     Inl (HTTPException 403
            [Lit ''Experiment dataset is missing the required fields: '',
             FieldSet {''examples''}, Lit ''.'']) \<and>
   ''examples'' \<notin> set [''ground_truth'', ''extra''] \<and>
   \<not> set [''ground_truth'', ''extra''] \<subseteq> ALLOWED_EXPERIMENT_FIELDS \<and>
   validate_experiment_dataset (\<lambda>c. Inr (Some [''ground_truth'', ''extra'']))
     [''both.csv'' \<mapsto> [1]] ''both.csv'' =
     Inl (HTTPException 403
            [Lit ''Experiment dataset is missing the required fields: '',
             FieldSet {''examples''}, Lit ''.''])"
  using validate_experiment_dataset_missing_first
          [of "[''empty.csv'' \<mapsto> []]" "''empty.csv''" "[]" "\<lambda>c. Inr None" "[]"]
        validate_experiment_dataset_missing_first
          [of "[''both.csv'' \<mapsto> [1]]" "''both.csv''" "[1]"
              "\<lambda>c. Inr (Some [''ground_truth'', ''extra''])" "[''ground_truth'', ''extra'']"]
  by (simp add: ALLOWED_EXPERIMENT_FIELDS_def)

subsection \<open>Files that cannot be decoded\<close>













text \<open>
  C8. For every format other than \<open>EXPERIMENT\<close>, \<open>validate_dataset_format\<close> raises the
  \<open>ValueError\<close> "Unknown dataset format", whatever the file holds. It is a plain Python
  exception, not an \<open>HTTPException\<close>: none of the statuses 403, 413 or 422 that the
  validation failures carry.
\<close>

theorem validate_dataset_format_unknown_tag:
  assumes "format \<noteq> EXPERIMENT"
  shows "validate_dataset_format fieldnames_of fs filename format =
           Inl (ValueError [Lit ''Unknown dataset format: '', FormatTag format]) \<and>
         (\<forall>status_code detail.
            validate_dataset_format fieldnames_of fs filename format \<noteq>
              Inl (HTTPException status_code detail))"
  using assms by (cases format) (simp_all add: validate_dataset_format_def)

theorem validate_dataset_format_unknown_tag_witness:
  "OTHER_FORMAT ''inference'' \<noteq> EXPERIMENT \<and>
   validate_dataset_format (\<lambda>c. Inr (Some [''examples''])) [''a.csv'' \<mapsto> [1]] ''a.csv''
     (OTHER_FORMAT ''inference'') =
     Inl (ValueError [Lit ''Unknown dataset format: '', FormatTag (OTHER_FORMAT ''inference'')])"
  using validate_dataset_format_unknown_tag
          [of "OTHER_FORMAT ''inference''" "\<lambda>c. Inr (Some [''examples''])"
              "[''a.csv'' \<mapsto> [1]]" "''a.csv''"]
  by simp

section \<open>Properties of the upload flow\<close>

text \<open>
  The body of the \<open>try\<close> leaves the temporary file in place and touches no other file.
\<close>

lemma upload_dataset_try_keeps_temp:
  "temp \<in> dom (files (snd (upload_dataset_try fieldnames_of st co dataset_file filename
                               format temp w)))"
  by (simp add: upload_dataset_try_def repo_create_def save_dataset_to_s3_def
      repo_delete_def Let_def split: prod.splits sum.splits option.splits)

lemma upload_dataset_try_other_files:
  "(files (snd (upload_dataset_try fieldnames_of st co dataset_file filename format temp w)))
     (temp := None) = (files w)(temp := None)"
  by (simp add: upload_dataset_try_def repo_create_def save_dataset_to_s3_def
      repo_delete_def Let_def split: prod.splits sum.splits option.splits)

text \<open>
  Whatever the body does, \<open>unlink\<close> then finds the temporary file and removes it.
\<close>

lemma upload_dataset_files:
  "files (snd (upload_dataset fieldnames_of st co dataset_file filename format w)) =
     (files w)(temp_name co := None)"
proof -
  let ?w0 = "NamedTemporaryFile (temp_name co) w"
  let ?t = "upload_dataset_try fieldnames_of st co dataset_file filename format
              (temp_name co) ?w0"
  have "temp_name co \<in> dom (files (snd ?t))"
    by (rule upload_dataset_try_keeps_temp)
  moreover have "(files (snd ?t))(temp_name co := None) = (files ?w0)(temp_name co := None)"
    by (rule upload_dataset_try_other_files)
  moreover have "(files ?w0)(temp_name co := None) = (files w)(temp_name co := None)"
    by (simp add: NamedTemporaryFile_def)
  moreover obtain r w1 where t: "?t = (r, w1)"
    by (cases ?t)
  ultimately show ?thesis
    by (simp add: upload_dataset_def unlink_def Let_def)
qed

text \<open>
  Once the size and the format are accepted and the repository has created the record,
  an exception of \<open>load_dataset\<close> or of \<open>save_to_disk\<close> ends the call with the 500
  exception, the record deleted again and the temporary file removed.
\<close>

lemma upload_dataset_storage_failure:
  assumes fits: "total_length dataset_file \<le> MAX_DATASET_SIZE st"
    and valid: "validate_dataset_format fieldnames_of
                  ((files w)(temp_name co \<mapsto> concat dataset_file)) (temp_name co) format = Inr ()"
    and created: "create_outcome co = Inr new_id"
    and fails: "load_outcome co = Some e \<or> (load_outcome co = None \<and> save_outcome co = Some e)"
  shows "upload_dataset fieldnames_of st co dataset_file filename format w =
           (Inl (HTTPException 500 [StrOf e]),
            w\<lparr>files := (files w)(temp_name co := None), db := (db w)(new_id := None)\<rparr>)"
proof -
  have size_ok: "validate_file_size dataset_file [] (MAX_DATASET_SIZE st) =
                   (Inr (total_length dataset_file), [], dataset_file)"
    using validate_file_size_loop_fits [of 0 dataset_file "MAX_DATASET_SIZE st" "[]"] fits
    by (simp add: validate_file_size_def)
  from fails show ?thesis
    by (auto simp add: upload_dataset_def upload_dataset_try_def NamedTemporaryFile_def
        size_ok valid created repo_create_def save_dataset_to_s3_def repo_delete_def
        raise_unhandled_exception_def HTTP_500_INTERNAL_SERVER_ERROR_def unlink_def Let_def)
qed

text \<open>
  When every step succeeds, the call returns the new record: the repository holds it,
  the bucket holds its key, and the temporary file is removed.
\<close>

lemma upload_dataset_success:
  assumes fits: "total_length dataset_file \<le> MAX_DATASET_SIZE st"
    and valid: "validate_dataset_format fieldnames_of
                  ((files w)(temp_name co \<mapsto> concat dataset_file)) (temp_name co) format = Inr ()"
    and created: "create_outcome co = Inr new_id"
    and stored: "load_outcome co = None" "save_outcome co = None"
  shows "upload_dataset fieldnames_of st co dataset_file filename format w =
           (Inr \<lparr>rec_id = new_id, rec_filename = filename, rec_format = format,
                  rec_size = total_length dataset_file\<rparr>,
            w\<lparr>files := (files w)(temp_name co := None),
               db := (db w)(new_id \<mapsto>
                       \<lparr>rec_id = new_id, rec_filename = filename, rec_format = format,
                        rec_size = total_length dataset_file\<rparr>),
               s3 := insert (get_s3_key st new_id filename) (s3 w)\<rparr>)"
proof -
  have size_ok: "validate_file_size dataset_file [] (MAX_DATASET_SIZE st) =
                   (Inr (total_length dataset_file), [], dataset_file)"
    using validate_file_size_loop_fits [of 0 dataset_file "MAX_DATASET_SIZE st" "[]"] fits
    by (simp add: validate_file_size_def)
  show ?thesis
    by (simp add: upload_dataset_def upload_dataset_try_def NamedTemporaryFile_def
        size_ok valid created stored repo_create_def save_dataset_to_s3_def unlink_def Let_def)
qed

text \<open>
  C7. In \<open>upload_dataset\<close> the temporary file is deleted on every exit path: for all
  inputs and all outcomes of the collaborators the final file system is the initial one
  without the temporary file. And when the write to long-term storage fails after the
  metadata record was created (\<open>load_dataset\<close> or \<open>save_to_disk\<close> raises \<open>e\<close>), the record
  is deleted from the repository and the call raises the 500 exception with \<open>str(e)\<close>:
  the repository holds no record with the new identifier.
\<close>

theorem upload_dataset_cleanup:
  "files (snd (upload_dataset fieldnames_of st co dataset_file filename format w)) =
     (files w)(temp_name co := None) \<and>
   temp_name co \<notin>
     dom (files (snd (upload_dataset fieldnames_of st co dataset_file filename format w))) \<and>
   (total_length dataset_file \<le> MAX_DATASET_SIZE st \<and>
    validate_dataset_format fieldnames_of
      ((files w)(temp_name co \<mapsto> concat dataset_file)) (temp_name co) format = Inr () \<and>
    create_outcome co = Inr new_id \<and>
    (load_outcome co = Some e \<or> (load_outcome co = None \<and> save_outcome co = Some e)) \<longrightarrow>
      upload_dataset fieldnames_of st co dataset_file filename format w =
        (Inl (HTTPException 500 [StrOf e]),
         w\<lparr>files := (files w)(temp_name co := None), db := (db w)(new_id := None)\<rparr>) \<and>
      new_id \<notin>
        dom (db (snd (upload_dataset fieldnames_of st co dataset_file filename format w))))"
proof (intro conjI impI)
  show gone: "files (snd (upload_dataset fieldnames_of st co dataset_file filename format w)) =
      (files w)(temp_name co := None)"
    by (rule upload_dataset_files)
  show "temp_name co \<notin>
      dom (files (snd (upload_dataset fieldnames_of st co dataset_file filename format w)))"
    by (simp add: gone)
next
  assume h: "total_length dataset_file \<le> MAX_DATASET_SIZE st \<and>
    validate_dataset_format fieldnames_of
      ((files w)(temp_name co \<mapsto> concat dataset_file)) (temp_name co) format = Inr () \<and>
    create_outcome co = Inr new_id \<and>
    (load_outcome co = Some e \<or> (load_outcome co = None \<and> save_outcome co = Some e))"
  then show run: "upload_dataset fieldnames_of st co dataset_file filename format w =
      (Inl (HTTPException 500 [StrOf e]),
       w\<lparr>files := (files w)(temp_name co := None), db := (db w)(new_id := None)\<rparr>)"
    using upload_dataset_storage_failure
            [of dataset_file st fieldnames_of w co format new_id e filename]
    by blast
  show "new_id \<notin>
      dom (db (snd (upload_dataset fieldnames_of st co dataset_file filename format w)))"
    by (simp add: run)
qed

theorem upload_dataset_cleanup_witness:
  "upload_dataset (\<lambda>c. Inr (Some [''examples'', ''ground_truth'']))
     \<lparr>MAX_DATASET_SIZE = 10, S3_DATASETS_PREFIX = ''datasets''\<rparr>
     \<lparr>temp_name = ''tmp0'', create_outcome = Inr ''id-1'', load_outcome = None,
      save_outcome = Some (LibraryError ''connection refused'')\<rparr>
     [[1, 2], [3]] ''data.csv'' EXPERIMENT
     \<lparr>files = [''keep.txt'' \<mapsto> [7]], db = Map.empty, s3 = {}\<rparr> =
     (Inl (HTTPException 500 [StrOf (LibraryError ''connection refused'')]),
      \<lparr>files = [''keep.txt'' \<mapsto> [7]], db = Map.empty, s3 = {}\<rparr>)"
proof -
  have same_files: "[''keep.txt'' \<mapsto> [7 :: 8 word]](''tmp0'' := None) = [''keep.txt'' \<mapsto> [7]]"
    by (rule ext) simp
  have same_db: "(Map.empty :: string \<rightharpoonup> DatasetRecord)(''id-1'' := None) = Map.empty"
    by (rule ext) simp
  from upload_dataset_cleanup
         [of "\<lambda>c. Inr (Some [''examples'', ''ground_truth''])"
             "\<lparr>MAX_DATASET_SIZE = 10, S3_DATASETS_PREFIX = ''datasets''\<rparr>"
             "\<lparr>temp_name = ''tmp0'', create_outcome = Inr ''id-1'', load_outcome = None,
               save_outcome = Some (LibraryError ''connection refused'')\<rparr>"
             "[[1, 2], [3]]" "''data.csv''" EXPERIMENT
             "\<lparr>files = [''keep.txt'' \<mapsto> [7]], db = Map.empty, s3 = {}\<rparr>"
             "''id-1''" "LibraryError ''connection refused''"]
  show ?thesis
    by (simp add: total_length_def validate_dataset_format_def
        validate_experiment_dataset_def REQUIRED_EXPERIMENT_FIELDS_def
        ALLOWED_EXPERIMENT_FIELDS_def same_files same_db)
qed

section \<open>Properties of the polling loop\<close>

text \<open>An observation of \<open>PENDING\<close> or \<open>RUNNING\<close> uses one iteration and one wait.\<close>

lemma wait_for_job_loop_waiting_step:
  "is_waiting (client job_id (observations s)) \<Longrightarrow>
   wait_for_job_loop client job_id poll_wait (Suc n) s =
   wait_for_job_loop client job_id poll_wait n
     (s\<lparr>observations := Suc (observations s), sleeps := sleeps s @ [poll_wait]\<rparr>)"
  by (auto simp add: is_waiting_def Let_def)

lemma wait_for_job_loop_waiting:
  "\<forall>j<k. is_waiting (client job_id (observations s + j)) \<Longrightarrow>
   wait_for_job_loop client job_id poll_wait (k + n) s =
   wait_for_job_loop client job_id poll_wait n
     (s\<lparr>observations := observations s + k, sleeps := sleeps s @ replicate k poll_wait\<rparr>)"
proof (induction k arbitrary: s)
  case 0
  then show ?case by simp
next
  case (Suc k)
  let ?s1 = "s\<lparr>observations := Suc (observations s), sleeps := sleeps s @ [poll_wait]\<rparr>"
  from Suc.prems have first: "is_waiting (client job_id (observations s))"
    by (metis add.right_neutral zero_less_Suc)
  from Suc.prems have later: "\<forall>j<k. is_waiting (client job_id (observations ?s1 + j))"
    by auto
  have "wait_for_job_loop client job_id poll_wait (Suc k + n) s =
        wait_for_job_loop client job_id poll_wait (k + n) ?s1"
    using wait_for_job_loop_waiting_step [of client job_id s poll_wait "k + n"] first by simp
  also have "\<dots> = wait_for_job_loop client job_id poll_wait n
      (?s1\<lparr>observations := observations ?s1 + k,
            sleeps := sleeps ?s1 @ replicate k poll_wait\<rparr>)"
    using Suc.IH [of ?s1] later by blast
  finally show ?case by (simp add: replicate_append_same)
qed

lemma wait_for_job_loop_from_start:
  assumes "\<forall>j<k. is_waiting (client job_id j)"
  shows "wait_for_job_loop client job_id poll_wait (k + n)
               \<lparr>observations = 0, sleeps = []\<rparr> =
             wait_for_job_loop client job_id poll_wait n
               \<lparr>observations = k, sleeps = replicate k poll_wait\<rparr>"
  using wait_for_job_loop_waiting
         [of k client job_id "\<lparr>observations = 0, sleeps = []\<rparr>" poll_wait n] assms
  by (simp del: wait_for_job_loop.simps)

text \<open>An observation of a terminal status ends the loop at once.\<close>

lemma wait_for_job_loop_succeeded:
  "client job_id (observations s) ''status'' = Some ''SUCCEEDED'' \<Longrightarrow>
   wait_for_job_loop client job_id poll_wait (Suc n) s =
     (Some (Inr (client job_id (observations s))), s\<lparr>observations := Suc (observations s)\<rparr>)"
  by (simp add: Let_def)

lemma wait_for_job_loop_failed:
  "client job_id (observations s) ''status'' = Some ''FAILED'' \<Longrightarrow>
   wait_for_job_loop client job_id poll_wait (Suc n) s =
     (Some (Inl (job_failed job_id)), s\<lparr>observations := Suc (observations s)\<rparr>)"
  by (simp add: Let_def)

lemma wait_for_job_loop_stopped:
  "client job_id (observations s) ''status'' = Some ''STOPPED'' \<Longrightarrow>
   wait_for_job_loop client job_id poll_wait (Suc n) s =
     (Some (Inl (job_stopped job_id)), s\<lparr>observations := Suc (observations s)\<rparr>)"
  by (simp add: Let_def)

text \<open>
  When every answer is \<open>PENDING\<close> or \<open>RUNNING\<close>, the call makes \<open>retries - 1\<close> queries
  (none when \<open>retries\<close> is below 2) and then raises the exception for a job that did
  not complete.
\<close>

lemma wait_for_job_never_terminal:
  assumes "\<forall>n. is_waiting (client job_id n)"
  shows "wait_for_job client job_id retries poll_wait =
           (Inl (job_did_not_complete job_id),
            \<lparr>observations = nat (retries - 1),
             sleeps = replicate (nat (retries - 1)) poll_wait\<rparr>)"
  using wait_for_job_loop_from_start [of "nat (retries - 1)" client job_id poll_wait 0] assms
  by (simp add: wait_for_job_def)

text \<open>
  C2. With a client that answers \<open>RUNNING\<close> to every query, \<open>retries\<close> being documented
  as the number of times to poll, the call should make \<open>retries\<close> queries before it
  raises the exception for a job that did not complete. The loop over
  \<open>range(1, retries)\<close> makes \<open>retries - 1\<close>: with \<open>retries = 1\<close> the call raises without
  a single query, and with \<open>retries = 3\<close> after two queries and two waits.
\<close>

theorem wait_for_job_always_running:
  "wait_for_job (\<lambda>job n. [''status'' \<mapsto> ''RUNNING'']) ''job-1'' 1 30 =
     (Inl (Exception [Lit ''Job '', JobId ''job-1'',
                      Lit '' did not complete in the polling '',
                      Lit ''time (retries: {retries}, poll_wait: {poll_wait})'']),
      \<lparr>observations = 0, sleeps = []\<rparr>) \<and>
   wait_for_job (\<lambda>job n. [''status'' \<mapsto> ''RUNNING'']) ''job-1'' 3 30 =
     (Inl (Exception [Lit ''Job '', JobId ''job-1'',
                      Lit '' did not complete in the polling '',
                      Lit ''time (retries: {retries}, poll_wait: {poll_wait})'']),
      \<lparr>observations = 2, sleeps = [30, 30]\<rparr>)"
proof -
  have "\<forall>n. is_waiting ((\<lambda>job n. [''status'' \<mapsto> ''RUNNING'']) ''job-1'' n)"
    by (simp add: is_waiting_def)
  from wait_for_job_never_terminal
         [of "\<lambda>job n. [''status'' \<mapsto> ''RUNNING'']" "''job-1''" 1 30]
       wait_for_job_never_terminal
         [of "\<lambda>job n. [''status'' \<mapsto> ''RUNNING'']" "''job-1''" 3 30] this
  show ?thesis by (simp add: job_did_not_complete_def eval_nat_numeral)
qed

text \<open>
  Let query number \<open>k\<close>, counted from 0, be one that the loop makes (\<open>k + 1 < retries\<close>)
  after \<open>k\<close> answers of \<open>PENDING\<close> or \<open>RUNNING\<close>. If its answer is \<open>SUCCEEDED\<close>, the call
  returns that answer; if \<open>FAILED\<close>, it raises "Job ... failed"; if \<open>STOPPED\<close>, it raises
  "Job ... stopped". In each case exactly \<open>k + 1\<close> queries were made and the only waits
  are the \<open>k\<close> ones that followed the earlier answers.
\<close>

lemma wait_for_job_short_circuits:
  assumes "int k + 1 < retries" and "\<forall>j<k. is_waiting (client job_id j)"
  shows "(client job_id k ''status'' = Some ''SUCCEEDED'' \<longrightarrow>
            wait_for_job client job_id retries poll_wait =
              (Inr (client job_id k),
               \<lparr>observations = Suc k, sleeps = replicate k poll_wait\<rparr>)) \<and>
         (client job_id k ''status'' = Some ''FAILED'' \<longrightarrow>
            wait_for_job client job_id retries poll_wait =
              (Inl (Exception [Lit ''Job '', JobId job_id, Lit '' failed'']),
               \<lparr>observations = Suc k, sleeps = replicate k poll_wait\<rparr>)) \<and>
         (client job_id k ''status'' = Some ''STOPPED'' \<longrightarrow>
            wait_for_job client job_id retries poll_wait =
              (Inl (Exception [Lit ''Job '', JobId job_id, Lit '' stopped'']),
               \<lparr>observations = Suc k, sleeps = replicate k poll_wait\<rparr>))"
proof -
  let ?s = "\<lparr>observations = k, sleeps = replicate k poll_wait\<rparr>"
  from assms(1) have "k < nat (retries - 1)" by linarith
  then obtain m where "nat (retries - 1) = Suc (k + m)"
    using less_imp_Suc_add by blast
  then have m: "nat (retries - 1) = k + Suc m" by simp
  have run: "wait_for_job_loop client job_id poll_wait (nat (retries - 1))
               \<lparr>observations = 0, sleeps = []\<rparr> =
             wait_for_job_loop client job_id poll_wait (Suc m) ?s"
    unfolding m by (rule wait_for_job_loop_from_start [of k client job_id, OF assms(2)])
  have succeeded: "wait_for_job client job_id retries poll_wait =
      (Inr (client job_id k), \<lparr>observations = Suc k, sleeps = replicate k poll_wait\<rparr>)"
    if "client job_id k ''status'' = Some ''SUCCEEDED''"
    using that wait_for_job_loop_succeeded [of client job_id ?s poll_wait m]
    by (simp add: wait_for_job_def run del: wait_for_job_loop.simps)
  have failed: "wait_for_job client job_id retries poll_wait =
      (Inl (Exception [Lit ''Job '', JobId job_id, Lit '' failed'']),
       \<lparr>observations = Suc k, sleeps = replicate k poll_wait\<rparr>)"
    if "client job_id k ''status'' = Some ''FAILED''"
    using that wait_for_job_loop_failed [of client job_id ?s poll_wait m]
    by (simp add: wait_for_job_def run job_failed_def del: wait_for_job_loop.simps)
  have stopped: "wait_for_job client job_id retries poll_wait =
      (Inl (Exception [Lit ''Job '', JobId job_id, Lit '' stopped'']),
       \<lparr>observations = Suc k, sleeps = replicate k poll_wait\<rparr>)"
    if "client job_id k ''status'' = Some ''STOPPED''"
    using that wait_for_job_loop_stopped [of client job_id ?s poll_wait m]
    by (simp add: wait_for_job_def run job_stopped_def del: wait_for_job_loop.simps)
  from succeeded failed stopped show ?thesis by (intro conjI impI)
qed

lemma wait_for_job_short_circuits_example:
  "wait_for_job (\<lambda>job n. if n = 1 then [''status'' \<mapsto> ''FAILED''] else [''status'' \<mapsto> ''RUNNING''])
     ''job-1'' 5 30 =
     (Inl (Exception [Lit ''Job '', JobId ''job-1'', Lit '' failed'']),
      \<lparr>observations = 2, sleeps = [30]\<rparr>) \<and>
   wait_for_job (\<lambda>job n. [''status'' \<mapsto> ''SUCCEEDED'', ''result'' \<mapsto> ''ok'']) ''job-1'' 5 30 =
     (Inr [''status'' \<mapsto> ''SUCCEEDED'', ''result'' \<mapsto> ''ok''],
      \<lparr>observations = 1, sleeps = []\<rparr>) \<and>
   wait_for_job (\<lambda>job n. if n = 2 then [''status'' \<mapsto> ''STOPPED''] else [''status'' \<mapsto> ''PENDING''])
     ''job-1'' 5 30 =
     (Inl (Exception [Lit ''Job '', JobId ''job-1'', Lit '' stopped'']),
      \<lparr>observations = 3, sleeps = [30, 30]\<rparr>)"
  using wait_for_job_short_circuits
          [of 1 5 "\<lambda>job n. if n = 1 then [''status'' \<mapsto> ''FAILED''] else [''status'' \<mapsto> ''RUNNING'']"
              "''job-1''" 30]
        wait_for_job_short_circuits
          [of 0 5 "\<lambda>job n. [''status'' \<mapsto> ''SUCCEEDED'', ''result'' \<mapsto> ''ok'']" "''job-1''" 30]
        wait_for_job_short_circuits
          [of 2 5 "\<lambda>job n. if n = 2 then [''status'' \<mapsto> ''STOPPED''] else [''status'' \<mapsto> ''PENDING'']"
              "''job-1''" 30]
  by (simp add: is_waiting_def eval_nat_numeral)

text \<open>
  C5. A terminal answer should end the call at once: \<open>SUCCEEDED\<close> on the first query
  returns the snapshot, \<open>FAILED\<close> on the second query raises "Job ... failed" after
  exactly two queries. The loop over \<open>range(1, retries)\<close> does not make the last of the
  \<open>retries\<close> queries: with \<open>retries = 1\<close> and a job that has succeeded, the call raises
  the exception for a job that did not complete without a single query; with
  \<open>retries = 2\<close> and \<open>FAILED\<close> as the second answer, it raises that exception after one
  query and one wait, and the failure is never observed.
\<close>

theorem wait_for_job_terminal_not_observed:
  "wait_for_job (\<lambda>job n. [''status'' \<mapsto> ''SUCCEEDED'']) ''job-1'' 1 30 =
     (Inl (Exception [Lit ''Job '', JobId ''job-1'',
                      Lit '' did not complete in the polling '',
                      Lit ''time (retries: {retries}, poll_wait: {poll_wait})'']),
      \<lparr>observations = 0, sleeps = []\<rparr>) \<and>
   wait_for_job
     (\<lambda>job n. if n = 1 then [''status'' \<mapsto> ''FAILED''] else [''status'' \<mapsto> ''RUNNING''])
     ''job-1'' 2 30 =
     (Inl (Exception [Lit ''Job '', JobId ''job-1'',
                      Lit '' did not complete in the polling '',
                      Lit ''time (retries: {retries}, poll_wait: {poll_wait})'']),
      \<lparr>observations = 1, sleeps = [30]\<rparr>)"
  by (simp add: wait_for_job_def job_did_not_complete_def Let_def)

end
